theory Spec2Isabelle
  imports Complex_Main
begin

section \<open>Python values, dictionaries and exceptions\<close>

text \<open>
  The program is one Python class, \<open>CompanyDataExtractor\<close>, that talks to three
  collaborators: a MySQL store (through \<open>mysql.connector\<close>), a market-data provider
  (through \<open>yfinance\<close>) and the console and clock (\<open>print\<close>, \<open>time.sleep\<close>).
  Every effect is made explicit: the state of the collaborators is a record \<open>world\<close>
  that each method takes and returns, what a collaborator answers to a call is an
  argument of the method (a \<open>reply\<close>), and every call that leaves the process is
  appended to a trace of events.

  The values the provider yields and the store holds are Python's \<open>None\<close>, integers
  and strings. A dictionary is an association list read with \<open>map_of\<close>.
\<close>

datatype pyval = PNone | PInt int | PStr string

type_synonym pydict = "(string \<times> pyval) list"

text \<open>
  The exceptions that no handler of the program catches: \<open>KeyError\<close> from a
  subscript \<open>d[k]\<close> on a missing key and \<open>ValueError\<close> from \<open>time.sleep\<close> on a
  negative length. Errors of the store (\<open>mysql.connector.Error\<close>) and of the provider
  (\<open>Exception\<close>) are caught where they arise and appear as error texts only.
\<close>

datatype exn = KeyError string | ValueError string

text \<open>\<open>d[k]\<close> and \<open>d.get(k, None)\<close>.\<close>

definition getitem :: "pydict \<Rightarrow> string \<Rightarrow> exn + pyval" where
  "getitem d k = (case map_of d k of None \<Rightarrow> Inl (KeyError k) | Some v \<Rightarrow> Inr v)"

definition dict_get :: "pydict \<Rightarrow> string \<Rightarrow> pyval" where
  "dict_get d k = (case map_of d k of None \<Rightarrow> PNone | Some v \<Rightarrow> v)"

section \<open>The world: connection, tables, trace\<close>

text \<open>
  A row of \<open>India_listed_companies_information\<close> (lines 89-100). The surrogate key
  \<open>id\<close> is left out: no statement of the program reads or writes it. Timestamps are
  the store's \<open>CURRENT_TIMESTAMP\<close> in whole seconds.
\<close>

record row =
  row_symbol :: pyval
  revenue :: pyval
  market_cap :: pyval
  industry :: pyval
  sector :: pyval
  created_at :: nat
  updated_at :: nat

text \<open>What the console shows: one constructor for each \<open>print\<close> of the source.\<close>

datatype message =
    ConnectedMsg
  | ConnectErrorMsg string
  | NotConnectedMsg
  | FetchedMsg nat
  | SymbolsErrorMsg string
  | FetchErrorMsg string string
  | TableCreatedMsg
  | CreateErrorMsg string
  | InsertErrorMsg pyval string
  | StartingMsg nat
  | ProcessingMsg nat nat string string
  | InsertedMsg string
  | RuleMsg
  | CompleteMsg
  | TotalMsg nat
  | SuccessfulMsg nat
  | FailedMsg nat
  | ClosedMsg

text \<open>The statements sent to the store, the upsert with its five bound values.\<close>

datatype stmt =
    CreateTable
  | SelectSymbols
  | Upsert pyval pyval pyval pyval pyval

datatype event =
    Print message
  | Opened
  | Statement stmt
  | Commit
  | Ticker string
  | Sleep real
  | Closed

text \<open>
  \<open>self.connection\<close>: \<open>None\<close>, a connection whose \<open>is_connected()\<close> is true, or
  one whose \<open>is_connected()\<close> is false (never established, or closed). A connection
  that the server drops in the middle of a run is outside the model.
\<close>

datatype conn = NoConnection | Alive | Dead

record world =
  connection :: conn
  source :: "(string \<times> string) list"
  dest :: "row list"
  trace :: "event list"

definition emit :: "event \<Rightarrow> world \<Rightarrow> world" where
  "emit ev w = w\<lparr>trace := trace w @ [ev]\<rparr>"

definition out :: "message \<Rightarrow> world \<Rightarrow> world" where
  "out m w = emit (Print m) w"

text \<open>\<open>self.connection and self.connection.is_connected()\<close>.\<close>

definition is_connected :: "world \<Rightarrow> bool" where
  "is_connected w = (connection w = Alive)"

section \<open>The replies of the collaborators\<close>

text \<open>
  \<open>mysql.connector.connect\<close> raises \<open>Error\<close>, or returns a connection that is or is
  not connected. A statement with its commit raises \<open>Error\<close> (\<open>Some\<close> its text) or
  goes through; the upsert goes through at a time of the store's clock. The provider
  raises an \<open>Exception\<close> somewhere in \<open>yf.Ticker(s).info\<close> or yields the \<open>info\<close>
  dictionary.
\<close>

datatype connect_reply = ConnectError string | ConnectDead | ConnectAlive

datatype upsert_reply = UpsertError string | UpsertDone nat

datatype provider_reply = ProviderRaises string | ProviderInfo pydict

section \<open>The methods of \<open>CompanyDataExtractor\<close>\<close>

subsection \<open>\<open>connect_db\<close> (lines 21-35)\<close>

text \<open>
  The result is Python's \<open>True\<close>, \<open>False\<close> or, when the connection came back not
  connected and the method falls off its end, \<open>None\<close>.
\<close>

definition connect_db :: "connect_reply \<Rightarrow> world \<Rightarrow> bool option \<times> world" where
  "connect_db reply w =
     (case reply of
        ConnectError e \<Rightarrow> (Some False, out (ConnectErrorMsg e) w)
      | ConnectDead \<Rightarrow> (None, w\<lparr>connection := Dead\<rparr>)
      | ConnectAlive \<Rightarrow> (Some True, out ConnectedMsg (emit Opened (w\<lparr>connection := Alive\<rparr>))))"

subsection \<open>\<open>get_company_symbols\<close> (lines 37-53)\<close>

definition get_company_symbols ::
  "string option \<Rightarrow> world \<Rightarrow> (string \<times> string) list \<times> world" where
  "get_company_symbols reply w =
     (if \<not> is_connected w then ([], out NotConnectedMsg w)
      else
        let w1 = emit (Statement SelectSymbols) w in
        case reply of
          Some e \<Rightarrow> ([], out (SymbolsErrorMsg e) w1)
        | None \<Rightarrow>
            let results = source w1 in
            (results, out (FetchedMsg (length results)) w1))"

subsection \<open>\<open>fetch_company_data\<close> (lines 55-75)\<close>

definition fetch_company_data ::
  "(string \<Rightarrow> provider_reply) \<Rightarrow> string \<Rightarrow> world \<Rightarrow> pydict option \<times> world" where
  "fetch_company_data yf symbol w =
     (let ticker_symbol = symbol;
          w1 = emit (Ticker ticker_symbol) w
      in case yf ticker_symbol of
           ProviderInfo info \<Rightarrow>
             (Some [(''symbol'', PStr symbol),
                    (''revenue'', dict_get info ''totalRevenue''),
                    (''market_cap'', dict_get info ''marketCap''),
                    (''industry'', dict_get info ''industry''),
                    (''sector'', dict_get info ''sector'')],
              w1)
         | ProviderRaises e \<Rightarrow> (None, out (FetchErrorMsg symbol e) w1))"

subsection \<open>\<open>create_table\<close> (lines 77-108)\<close>

text \<open>
  \<open>CREATE TABLE IF NOT EXISTS\<close> leaves the rows of an existing table as they are,
  and a table that did not exist has none: \<open>dest\<close> is unchanged either way.
\<close>

definition create_table :: "string option \<Rightarrow> world \<Rightarrow> bool \<times> world" where
  "create_table reply w =
     (if \<not> is_connected w then (False, out NotConnectedMsg w)
      else
        let w1 = emit (Statement CreateTable) w in
        case reply of
          Some e \<Rightarrow> (False, out (CreateErrorMsg e) w1)
        | None \<Rightarrow> (True, out TableCreatedMsg (emit Commit w1)))"

subsection \<open>\<open>insert_company_data\<close> (lines 110-144)\<close>

text \<open>
  The store's part of the statement of lines 119-128 on the table of lines 89-100.
  \<open>symbol\<close> is \<open>UNIQUE\<close>: the statement looks for the row with the bound symbol.
  Without one it inserts a row, whose \<open>created_at\<close> and \<open>updated_at\<close> both default to
  the statement's \<open>CURRENT_TIMESTAMP\<close>. With one, \<open>ON DUPLICATE KEY UPDATE\<close> assigns
  the four data columns of that row and leaves \<open>symbol\<close> and \<open>created_at\<close> alone;
  \<open>updated_at\<close>, declared \<open>ON UPDATE CURRENT_TIMESTAMP\<close>, is set to the statement's
  time when the value of another column of the row changes, and stays as it is when
  all columns are set to the values they hold (MySQL Reference Manual, Automatic
  Initialization and Updating for TIMESTAMP and DATETIME; the statement then reports
  no affected row).
\<close>

definition new_row :: "nat \<Rightarrow> pyval \<Rightarrow> pyval \<Rightarrow> pyval \<Rightarrow> pyval \<Rightarrow> pyval \<Rightarrow> row" where
  "new_row now key revn mcap indu sect =
     \<lparr>row_symbol = key, revenue = revn, market_cap = mcap, industry = indu, sector = sect,
      created_at = now, updated_at = now\<rparr>"

definition update_row :: "nat \<Rightarrow> pyval \<Rightarrow> pyval \<Rightarrow> pyval \<Rightarrow> pyval \<Rightarrow> row \<Rightarrow> row" where
  "update_row now revn mcap indu sect r =
     (if revenue r = revn \<and> market_cap r = mcap \<and> industry r = indu \<and> sector r = sect then r
      else r\<lparr>revenue := revn, market_cap := mcap, industry := indu, sector := sect,
             updated_at := now\<rparr>)"

fun upsert_rows :: "nat \<Rightarrow> pyval \<Rightarrow> pyval \<Rightarrow> pyval \<Rightarrow> pyval \<Rightarrow> pyval \<Rightarrow> row list \<Rightarrow> row list" where
  "upsert_rows now key revn mcap indu sect [] = [new_row now key revn mcap indu sect]"
| "upsert_rows now key revn mcap indu sect (r # rs) =
     (if row_symbol r = key then update_row now revn mcap indu sect r # rs
      else r # upsert_rows now key revn mcap indu sect rs)"

text \<open>
  \<open>cursor.execute(insert_query, values)\<close> and \<open>self.connection.commit()\<close>: \<open>None\<close>
  when both went through, the error's text otherwise. \<open>symbol\<close> is \<open>NOT NULL\<close>, so
  the store refuses a bound \<open>None\<close> whatever else it would answer. Which other values
  the store refuses (a string longer than 512, an integer outside \<open>BIGINT\<close>, a lost
  connection) is the store's reply; a value it accepts is held as it was bound.
\<close>

definition execute_upsert ::
  "upsert_reply \<Rightarrow> pyval \<Rightarrow> pyval \<Rightarrow> pyval \<Rightarrow> pyval \<Rightarrow> pyval \<Rightarrow> world \<Rightarrow> string option \<times> world" where
  "execute_upsert reply key revn mcap indu sect w =
     (let w1 = emit (Statement (Upsert key revn mcap indu sect)) w in
      if key = PNone then (Some ''Column symbol cannot be null'', w1)
      else case reply of
             UpsertError e \<Rightarrow> (Some e, w1)
           | UpsertDone now \<Rightarrow>
               (None, emit Commit (w1\<lparr>dest := upsert_rows now key revn mcap indu sect (dest w1)\<rparr>)))"

definition insert_company_data ::
  "upsert_reply \<Rightarrow> pydict \<Rightarrow> world \<Rightarrow> (exn + bool) \<times> world" where
  "insert_company_data reply data w =
     (if \<not> is_connected w then (Inr False, out NotConnectedMsg w)
      else
        case getitem data ''symbol'' of Inl x \<Rightarrow> (Inl x, w) | Inr key \<Rightarrow>
        case getitem data ''revenue'' of Inl x \<Rightarrow> (Inl x, w) | Inr revn \<Rightarrow>
        case getitem data ''market_cap'' of Inl x \<Rightarrow> (Inl x, w) | Inr mcap \<Rightarrow>
        case getitem data ''industry'' of Inl x \<Rightarrow> (Inl x, w) | Inr indu \<Rightarrow>
        case getitem data ''sector'' of Inl x \<Rightarrow> (Inl x, w) | Inr sect \<Rightarrow>
        case execute_upsert reply key revn mcap indu sect w of
          (None, w1) \<Rightarrow> (Inr True, w1)
        | (Some e, w1) \<Rightarrow> (Inr False, out (InsertErrorMsg key e) w1))"

subsection \<open>\<open>close_connection\<close> (lines 187-191)\<close>

definition close_connection :: "world \<Rightarrow> world" where
  "close_connection w =
     (if is_connected w then out ClosedMsg (emit Closed (w\<lparr>connection := Dead\<rparr>)) else w)"

subsection \<open>\<open>process_all_companies\<close> (lines 146-185)\<close>

text \<open>
  What the collaborators answer during one run. The provider and the store may
  answer differently at each iteration, so their replies are indexed by \<open>idx\<close>, the
  counter of \<open>enumerate(companies, 1)\<close>.
\<close>

record env =
  connect_reply :: connect_reply
  create_reply :: "string option"
  select_reply :: "string option"
  provider :: "nat \<Rightarrow> string \<Rightarrow> provider_reply"
  store :: "nat \<Rightarrow> upsert_reply"

text \<open>\<open>time.sleep(delay)\<close> raises \<open>ValueError\<close> on a negative length.\<close>

definition sleep :: "real \<Rightarrow> world \<Rightarrow> exn + world" where
  "sleep delay w =
     (if delay < 0 then Inl (ValueError ''sleep length must be non-negative'')
      else Inr (emit (Sleep delay) w))"

text \<open>
  Lines 162-173, the body of the loop up to the pause: the progress line, the fetch,
  the upsert when \<open>data\<close> is truthy (not \<open>None\<close> and not the empty dictionary), and
  the two counters.
\<close>

definition attempt ::
  "env \<Rightarrow> nat \<Rightarrow> nat \<Rightarrow> string \<times> string \<Rightarrow> nat \<Rightarrow> nat \<Rightarrow> world \<Rightarrow> (exn + nat \<times> nat) \<times> world" where
  "attempt e total_n idx company successful failed w =
     (case company of (symbol, name) \<Rightarrow>
      let w1 = out (ProcessingMsg idx total_n name symbol) w in
      case fetch_company_data (provider e idx) symbol w1 of
        (None, w2) \<Rightarrow> (Inr (successful, failed + 1), w2)
      | (Some data, w2) \<Rightarrow>
          if data = [] then (Inr (successful, failed + 1), w2)
          else case insert_company_data (store e idx) data w2 of
                 (Inl x, w3) \<Rightarrow> (Inl x, w3)
               | (Inr True, w3) \<Rightarrow> (Inr (successful + 1, failed), out (InsertedMsg symbol) w3)
               | (Inr False, w3) \<Rightarrow> (Inr (successful, failed + 1), w3))"

text \<open>Lines 161-176: the loop, each iteration an attempt and then the pause.\<close>

fun process_loop ::
  "env \<Rightarrow> real \<Rightarrow> nat \<Rightarrow> nat \<Rightarrow> (string \<times> string) list \<Rightarrow> nat \<Rightarrow> nat \<Rightarrow> world
    \<Rightarrow> (exn + nat \<times> nat) \<times> world" where
  "process_loop e delay total_n idx [] successful failed w = (Inr (successful, failed), w)"
| "process_loop e delay total_n idx (company # rest) successful failed w =
     (case attempt e total_n idx company successful failed w of
        (Inl x, w1) \<Rightarrow> (Inl x, w1)
      | (Inr (successful', failed'), w1) \<Rightarrow>
          (case sleep delay w1 of
             Inl x \<Rightarrow> (Inl x, w1)
           | Inr w2 \<Rightarrow> process_loop e delay total_n (idx + 1) rest successful' failed' w2))"

text \<open>
  How a run ends: by one of the two early \<open>return\<close>s, after the summary with the
  three numbers it printed, or with an exception that leaves the method.
\<close>

datatype outcome = Aborted | Completed nat nat nat | Raised exn

text \<open>Lines 154-185: the run from \<open>companies\<close> on.\<close>

definition process_companies ::
  "env \<Rightarrow> real \<Rightarrow> (string \<times> string) list \<Rightarrow> world \<Rightarrow> outcome \<times> world" where
  "process_companies e delay companies w =
     (let total_n = length companies;
          w1 = out (StartingMsg total_n) w
      in case process_loop e delay total_n 1 companies 0 0 w1 of
           (Inl x, w2) \<Rightarrow> (Raised x, w2)
         | (Inr (successful, failed), w2) \<Rightarrow>
             (Completed total_n successful failed,
              close_connection
                (out RuleMsg (out (FailedMsg failed) (out (SuccessfulMsg successful)
                  (out (TotalMsg total_n) (out CompleteMsg (out RuleMsg w2))))))))"

definition process_all_companies :: "env \<Rightarrow> real \<Rightarrow> world \<Rightarrow> outcome \<times> world" where
  "process_all_companies e delay w =
     (case connect_db (connect_reply e) w of (opened, w1) \<Rightarrow>
      if opened \<noteq> Some True then (Aborted, w1)
      else case create_table (create_reply e) w1 of (created, w2) \<Rightarrow>
      if \<not> created then (Aborted, w2)
      else case get_company_symbols (select_reply e) w2 of (companies, w3) \<Rightarrow>
        process_companies e delay companies w3)"

section \<open>Reading a table and a trace\<close>

text \<open>The rows of a table with a given symbol, and the events of each kind in a trace.\<close>

definition rows_for :: "pyval \<Rightarrow> row list \<Rightarrow> row list" where
  "rows_for key rs = filter (\<lambda>r. row_symbol r = key) rs"

fun tickers :: "event list \<Rightarrow> string list" where
  "tickers [] = []"
| "tickers (Ticker s # evs) = s # tickers evs"
| "tickers (ev # evs) = tickers evs"

fun sleeps :: "event list \<Rightarrow> real list" where
  "sleeps [] = []"
| "sleeps (Sleep d # evs) = d # sleeps evs"
| "sleeps (ev # evs) = sleeps evs"

fun upsert_keys :: "event list \<Rightarrow> pyval list" where
  "upsert_keys [] = []"
| "upsert_keys (Statement (Upsert key revn mcap indu sect) # evs) = key # upsert_keys evs"
| "upsert_keys (ev # evs) = upsert_keys evs"

text \<open>
  Line 154 as a run reaches it: the list that \<open>get_company_symbols\<close> returns after
  \<open>connect_db\<close> and \<open>create_table\<close>, and the world at that point.
\<close>

definition run_listing :: "env \<Rightarrow> world \<Rightarrow> (string \<times> string) list \<times> world" where
  "run_listing e w =
     get_company_symbols (select_reply e)
       (snd (create_table (create_reply e) (snd (connect_db (connect_reply e) w))))"

section \<open>A scenario\<close>

text \<open>
  The source table lists a symbol the provider knows and one for which it raises.
  The store accepts every statement, iteration \<open>idx\<close> at time \<open>100 + idx\<close>.
\<close>

definition tcs_info :: pydict where
  "tcs_info = [(''totalRevenue'', PInt 2400000), (''marketCap'', PInt 14000000),
               (''industry'', PStr ''IT Services''), (''sector'', PStr ''Technology'')]"

definition newco_info :: pydict where
  "newco_info = [(''marketCap'', PInt 500)]"

definition demo_provider :: "nat \<Rightarrow> string \<Rightarrow> provider_reply" where
  "demo_provider idx s =
     (if s = ''TCS.NS'' then ProviderInfo tcs_info
      else if s = ''NEWCO.NS'' then ProviderInfo newco_info
      else ProviderRaises ''HTTP 404'')"

definition demo_store :: "nat \<Rightarrow> upsert_reply" where
  "demo_store idx = UpsertDone (100 + idx)"

definition demo_env :: env where
  "demo_env = \<lparr>connect_reply = ConnectAlive, create_reply = None, select_reply = None,
               provider = demo_provider, store = demo_store\<rparr>"

definition denied_env :: env where
  "denied_env = \<lparr>connect_reply = ConnectAlive, create_reply = Some ''CREATE command denied'',
                 select_reply = None, provider = demo_provider, store = demo_store\<rparr>"

definition demo_world :: world where
  "demo_world = \<lparr>connection = NoConnection,
                 source = [(''TCS.NS'', ''Tata Consultancy''), (''BADSYM.NS'', ''Bad Co'')],
                 dest = [], trace = []\<rparr>"

definition one_company_world :: world where
  "one_company_world = \<lparr>connection = NoConnection,
                        source = [(''TCS.NS'', ''Tata Consultancy'')],
                        dest = [], trace = []\<rparr>"

definition idle_world :: world where
  "idle_world = \<lparr>connection = NoConnection, source = [], dest = [], trace = []\<rparr>"

definition connected_world :: world where
  "connected_world = \<lparr>connection = Alive,
                      source = [(''TCS.NS'', ''Tata Consultancy''), (''BADSYM.NS'', ''Bad Co'')],
                      dest = [], trace = []\<rparr>"

definition tcs_row :: row where
  "tcs_row = \<lparr>row_symbol = PStr ''TCS.NS'', revenue = PInt 2400000,
               market_cap = PInt 14000000, industry = PStr ''IT Services'',
               sector = PStr ''Technology'', created_at = 101, updated_at = 101\<rparr>"

definition tcs_data :: pydict where
  "tcs_data = [(''symbol'', PStr ''TCS.NS''), (''revenue'', PInt 2400000),
               (''market_cap'', PInt 14000000), (''industry'', PStr ''IT Services''),
               (''sector'', PStr ''Technology'')]"

definition tcs_data_later :: pydict where
  "tcs_data_later = [(''symbol'', PStr ''TCS.NS''), (''revenue'', PInt 2400000),
                     (''market_cap'', PInt 15000000), (''industry'', PStr ''IT Services''),
                     (''sector'', PStr ''Technology'')]"

definition stored_world :: world where
  "stored_world = \<lparr>connection = Alive, source = [], dest = [tcs_row], trace = []\<rparr>"

definition demo_final :: world where
  "demo_final =
     \<lparr>connection = Dead,
      source = [(''TCS.NS'', ''Tata Consultancy''), (''BADSYM.NS'', ''Bad Co'')],
      dest = [tcs_row],
      trace =
        [Opened, Print ConnectedMsg, Statement CreateTable, Commit, Print TableCreatedMsg,
         Statement SelectSymbols, Print (FetchedMsg 2), Print (StartingMsg 2),
         Print (ProcessingMsg 1 2 ''Tata Consultancy'' ''TCS.NS''), Ticker ''TCS.NS'',
         Statement (Upsert (PStr ''TCS.NS'') (PInt 2400000) (PInt 14000000)
                      (PStr ''IT Services'') (PStr ''Technology'')),
         Commit, Print (InsertedMsg ''TCS.NS''), Sleep 1,
         Print (ProcessingMsg 2 2 ''Bad Co'' ''BADSYM.NS''), Ticker ''BADSYM.NS'',
         Print (FetchErrorMsg ''BADSYM.NS'' ''HTTP 404''), Sleep 1,
         Print RuleMsg, Print CompleteMsg, Print (TotalMsg 2), Print (SuccessfulMsg 1),
         Print (FailedMsg 1), Print RuleMsg, Closed, Print ClosedMsg]\<rparr>"

section \<open>Basic facts\<close>

lemma emit_fields [simp]:
  "trace (emit ev w) = trace w @ [ev]" "dest (emit ev w) = dest w"
  "source (emit ev w) = source w" "connection (emit ev w) = connection w"
  by (simp_all add: emit_def)

lemma out_fields [simp]:
  "trace (out m w) = trace w @ [Print m]" "dest (out m w) = dest w"
  "source (out m w) = source w" "connection (out m w) = connection w"
  by (simp_all add: out_def)

lemma is_connected_emit [simp]: "is_connected (emit ev w) = is_connected w"
  by (simp add: is_connected_def)

lemma is_connected_out [simp]: "is_connected (out m w) = is_connected w"
  by (simp add: is_connected_def)

lemma tickers_append [simp]: "tickers (xs @ ys) = tickers xs @ tickers ys"
  by (induction xs rule: tickers.induct) simp_all

lemma sleeps_append [simp]: "sleeps (xs @ ys) = sleeps xs @ sleeps ys"
  by (induction xs rule: sleeps.induct) simp_all

lemma upsert_keys_append [simp]: "upsert_keys (xs @ ys) = upsert_keys xs @ upsert_keys ys"
  by (induction xs rule: upsert_keys.induct) simp_all

lemma rows_for_Nil [simp]: "rows_for key [] = []"
  by (simp add: rows_for_def)

lemma rows_for_Cons [simp]:
  "rows_for key (r # rs) = (if row_symbol r = key then r # rows_for key rs else rows_for key rs)"
  by (simp add: rows_for_def)

text \<open>Unfolding the definitions of the methods evaluates them on the scenario.\<close>

lemmas method_defs =
  process_all_companies_def process_companies_def connect_db_def create_table_def
  get_company_symbols_def fetch_company_data_def insert_company_data_def execute_upsert_def
  close_connection_def attempt_def sleep_def getitem_def dict_get_def is_connected_def
  out_def emit_def update_row_def new_row_def run_listing_def Let_def

lemmas scenario_defs =
  tcs_info_def newco_info_def demo_provider_def demo_store_def demo_env_def denied_env_def
  demo_world_def one_company_world_def idle_world_def connected_world_def tcs_row_def
  tcs_data_def tcs_data_later_def stored_world_def demo_final_def

lemma demo_run: "process_all_companies demo_env 1 demo_world = (Completed 2 1 1, demo_final)"
  by (simp add: method_defs scenario_defs)

section \<open>\<open>get_company_symbols\<close>\<close>

text \<open>
  C9. \<open>get_company_symbols\<close> returns the empty list, after printing
  \<open>Not connected to database\<close>, when there is no live connection; it returns the
  empty list, after printing the error, when the \<open>SELECT\<close> raises; otherwise it
  returns all the (symbol, name) pairs of the source table. It has no other result:
  the function is total and never raises.
\<close>

theorem c9_get_company_symbols:
  "(\<not> is_connected w \<longrightarrow> get_company_symbols reply w = ([], out NotConnectedMsg w)) \<and>
   (is_connected w \<longrightarrow>
      get_company_symbols (Some err) w =
        ([], out (SymbolsErrorMsg err) (emit (Statement SelectSymbols) w))) \<and>
   (is_connected w \<longrightarrow>
      get_company_symbols None w =
        (source w, out (FetchedMsg (length (source w))) (emit (Statement SelectSymbols) w)))"
  by (simp add: get_company_symbols_def Let_def)

theorem c9_get_company_symbols_witness:
  "\<not> is_connected demo_world \<and>
   get_company_symbols None demo_world = ([], out NotConnectedMsg demo_world) \<and>
   is_connected connected_world \<and>
   get_company_symbols (Some ''server has gone away'') connected_world =
     ([], out (SymbolsErrorMsg ''server has gone away'')
            (emit (Statement SelectSymbols) connected_world)) \<and>
   fst (get_company_symbols None connected_world) =
     [(''TCS.NS'', ''Tata Consultancy''), (''BADSYM.NS'', ''Bad Co'')]"
proof -
  have dead: "\<not> is_connected demo_world"
    by (simp add: is_connected_def demo_world_def)
  have live: "is_connected connected_world"
    by (simp add: is_connected_def connected_world_def)
  have src: "source connected_world = [(''TCS.NS'', ''Tata Consultancy''), (''BADSYM.NS'', ''Bad Co'')]"
    by (simp add: connected_world_def)
  from c9_get_company_symbols [of demo_world None]
       c9_get_company_symbols [of connected_world None "''server has gone away''"]
       dead live src
  show ?thesis by simp
qed

section \<open>\<open>fetch_company_data\<close>\<close>

lemma fetch_info:
  "yf symbol = ProviderInfo info \<Longrightarrow>
   fetch_company_data yf symbol w =
     (Some [(''symbol'', PStr symbol),
            (''revenue'', dict_get info ''totalRevenue''),
            (''market_cap'', dict_get info ''marketCap''),
            (''industry'', dict_get info ''industry''),
            (''sector'', dict_get info ''sector'')],
      emit (Ticker symbol) w)"
  by (simp add: fetch_company_data_def Let_def)

lemma fetch_raises:
  "yf symbol = ProviderRaises err \<Longrightarrow>
   fetch_company_data yf symbol w =
     (None, out (FetchErrorMsg symbol err) (emit (Ticker symbol) w))"
  by (simp add: fetch_company_data_def Let_def)

lemma fetch_quiet:
  "dest (snd (fetch_company_data yf symbol w)) = dest w \<and>
   connection (snd (fetch_company_data yf symbol w)) = connection w \<and>
   upsert_keys (trace (snd (fetch_company_data yf symbol w))) = upsert_keys (trace w) \<and>
   sleeps (trace (snd (fetch_company_data yf symbol w))) = sleeps (trace w)"
  by (cases "yf symbol") (simp_all add: fetch_info fetch_raises)

text \<open>
  C6. When the provider yields its dictionary, \<open>fetch_company_data\<close> returns a
  dictionary in which each of \<open>revenue\<close>, \<open>market_cap\<close>, \<open>industry\<close> and \<open>sector\<close>
  is \<open>None\<close> if the provider's \<open>totalRevenue\<close>, \<open>marketCap\<close>, \<open>industry\<close> or
  \<open>sector\<close> is absent. When the provider raises, whatever the error, the method
  returns \<open>None\<close>; in the model as in the source (\<open>except Exception\<close>) no exception
  leaves it. \<open>KeyboardInterrupt\<close> and \<open>SystemExit\<close>, which are not \<open>Exception\<close>s,
  are signals to the process and not errors of the provider; they are not modelled.
\<close>

theorem c6_fetch_missing_fields_and_errors:
  "(yf symbol = ProviderInfo info \<longrightarrow>
      (\<exists>data. fst (fetch_company_data yf symbol w) = Some data \<and>
         (map_of info ''totalRevenue'' = None \<longrightarrow> map_of data ''revenue'' = Some PNone) \<and>
         (map_of info ''marketCap'' = None \<longrightarrow> map_of data ''market_cap'' = Some PNone) \<and>
         (map_of info ''industry'' = None \<longrightarrow> map_of data ''industry'' = Some PNone) \<and>
         (map_of info ''sector'' = None \<longrightarrow> map_of data ''sector'' = Some PNone))) \<and>
   (yf symbol = ProviderRaises err \<longrightarrow> fst (fetch_company_data yf symbol w) = None)"
  by (simp add: fetch_info fetch_raises dict_get_def)

theorem c6_fetch_missing_fields_and_errors_witness:
  "demo_provider 1 ''NEWCO.NS'' = ProviderInfo newco_info \<and>
   map_of newco_info ''totalRevenue'' = None \<and>
   map_of newco_info ''industry'' = None \<and>
   map_of newco_info ''sector'' = None \<and>
   fst (fetch_company_data (demo_provider 1) ''NEWCO.NS'' connected_world) =
     Some [(''symbol'', PStr ''NEWCO.NS''), (''revenue'', PNone), (''market_cap'', PInt 500),
           (''industry'', PNone), (''sector'', PNone)] \<and>
   demo_provider 1 ''BADSYM.NS'' = ProviderRaises ''HTTP 404'' \<and>
   fst (fetch_company_data (demo_provider 1) ''BADSYM.NS'' connected_world) = None"
proof -
  have info: "demo_provider 1 ''NEWCO.NS'' = ProviderInfo newco_info"
    by (simp add: demo_provider_def)
  have bad: "demo_provider 1 ''BADSYM.NS'' = ProviderRaises ''HTTP 404''"
    by (simp add: demo_provider_def)
  have absent: "map_of newco_info ''totalRevenue'' = None" "map_of newco_info ''industry'' = None"
    "map_of newco_info ''sector'' = None"
    by (simp_all add: newco_info_def)
  have val: "fst (fetch_company_data (demo_provider 1) ''NEWCO.NS'' connected_world) =
     Some [(''symbol'', PStr ''NEWCO.NS''), (''revenue'', PNone), (''market_cap'', PInt 500),
           (''industry'', PNone), (''sector'', PNone)]"
    using fetch_info [of "demo_provider 1" "''NEWCO.NS''" newco_info connected_world] info
    by (simp add: dict_get_def newco_info_def)
  from c6_fetch_missing_fields_and_errors
         [of "demo_provider 1" "''BADSYM.NS''" newco_info connected_world "''HTTP 404''"]
       bad
  have none: "fst (fetch_company_data (demo_provider 1) ''BADSYM.NS'' connected_world) = None"
    by simp
  from info bad absent val none show ?thesis by simp
qed

section \<open>\<open>insert_company_data\<close>\<close>

lemma row_symbol_update_row [simp]:
  "row_symbol (update_row now revn mcap indu sect r) = row_symbol r"
  by (simp add: update_row_def)

lemma upsert_rows_absent:
  "rows_for key rs = [] \<Longrightarrow>
   rows_for key (upsert_rows now key revn mcap indu sect rs) =
     [new_row now key revn mcap indu sect]"
  by (induction rs) (simp_all add: new_row_def split: if_splits)

lemma upsert_rows_present:
  "rows_for key rs = [r] \<Longrightarrow>
   rows_for key (upsert_rows now key revn mcap indu sect rs) =
     [update_row now revn mcap indu sect r]"
  by (induction rs) (simp_all split: if_splits)

lemma upsert_rows_others:
  "k \<noteq> key \<Longrightarrow> rows_for k (upsert_rows now key revn mcap indu sect rs) = rows_for k rs"
  by (induction rs) (simp_all add: new_row_def)

lemma upsert_rows_symbols:
  "row_symbol ` set (upsert_rows now key revn mcap indu sect rs) = insert key (row_symbol ` set rs)"
  by (induction rs) (auto simp add: new_row_def)

text \<open>The table keeps at most one row for each symbol, as \<open>UNIQUE\<close> demands.\<close>

lemma upsert_rows_distinct:
  "distinct (map row_symbol rs) \<Longrightarrow>
   distinct (map row_symbol (upsert_rows now key revn mcap indu sect rs))"
proof (induction rs)
  case Nil
  then show ?case by simp
next
  case (Cons r rs)
  have "row_symbol ` set (upsert_rows now key revn mcap indu sect rs) =
        insert key (row_symbol ` set rs)"
    by (rule upsert_rows_symbols)
  with Cons show ?case by auto
qed

lemma insert_unconnected:
  "\<not> is_connected w \<Longrightarrow> insert_company_data reply data w = (Inr False, out NotConnectedMsg w)"
  by (simp add: insert_company_data_def)

lemma insert_fetched:
  assumes "is_connected w"
  shows "insert_company_data reply
           [(''symbol'', PStr s), (''revenue'', a), (''market_cap'', b),
            (''industry'', c), (''sector'', d)] w =
         (case reply of
            UpsertError err \<Rightarrow>
              (Inr False,
               out (InsertErrorMsg (PStr s) err) (emit (Statement (Upsert (PStr s) a b c d)) w))
          | UpsertDone now \<Rightarrow>
              (Inr True,
               emit Commit
                 ((emit (Statement (Upsert (PStr s) a b c d)) w)
                    \<lparr>dest := upsert_rows now (PStr s) a b c d (dest w)\<rparr>)))"
  using assms
  by (simp add: insert_company_data_def getitem_def execute_upsert_def Let_def
           split: upsert_reply.splits)

text \<open>
  \<open>insert_company_data\<close> returns \<open>True\<close> only when the connection is live, the
  bound symbol is not \<open>None\<close> and the store executed the statement.
\<close>

lemma insert_true:
  assumes "insert_company_data reply data w = (Inr True, w')"
      and "map_of data ''symbol'' = Some key" and "map_of data ''revenue'' = Some revn"
      and "map_of data ''market_cap'' = Some mcap" and "map_of data ''industry'' = Some indu"
      and "map_of data ''sector'' = Some sect"
  shows "\<exists>now. reply = UpsertDone now \<and> is_connected w \<and> key \<noteq> PNone \<and>
           dest w' = upsert_rows now key revn mcap indu sect (dest w)"
  using assms
  by (auto simp add: insert_company_data_def getitem_def execute_upsert_def Let_def
           split: if_splits upsert_reply.splits)

section \<open>The loop of \<open>process_all_companies\<close>\<close>

lemma attempt_raises:
  assumes "provider e idx s = ProviderRaises err"
  shows "attempt e t idx (s, n) sc fl w =
           (Inr (sc, fl + 1),
            out (FetchErrorMsg s err) (emit (Ticker s) (out (ProcessingMsg idx t n s) w)))"
  using assms by (simp add: attempt_def fetch_raises)

lemma attempt_info:
  assumes "provider e idx s = ProviderInfo info"
  shows "attempt e t idx (s, n) sc fl w =
           (case insert_company_data (store e idx)
                   [(''symbol'', PStr s),
                    (''revenue'', dict_get info ''totalRevenue''),
                    (''market_cap'', dict_get info ''marketCap''),
                    (''industry'', dict_get info ''industry''),
                    (''sector'', dict_get info ''sector'')]
                   (emit (Ticker s) (out (ProcessingMsg idx t n s) w)) of
              (Inl x, w3) \<Rightarrow> (Inl x, w3)
            | (Inr True, w3) \<Rightarrow> (Inr (sc + 1, fl), out (InsertedMsg s) w3)
            | (Inr False, w3) \<Rightarrow> (Inr (sc, fl + 1), w3))"
  using assms by (simp add: attempt_def fetch_info)

text \<open>
  An attempt never raises (the dictionary that \<open>fetch_company_data\<close> builds has the
  five keys that \<open>insert_company_data\<close> reads), adds one to exactly one counter,
  asks the provider once, does not sleep, and sends at most one upsert, keyed by the
  symbol of the iteration.
\<close>

lemma attempt_result:
  "\<exists>sc' fl' w'.
     attempt e t idx (s, n) sc fl w = (Inr (sc', fl'), w') \<and>
     ((sc' = sc + 1 \<and> fl' = fl) \<or> (sc' = sc \<and> fl' = fl + 1)) \<and>
     tickers (trace w') = tickers (trace w) @ [s] \<and>
     sleeps (trace w') = sleeps (trace w) \<and>
     connection w' = connection w \<and>
     (upsert_keys (trace w') = upsert_keys (trace w) \<or>
      upsert_keys (trace w') = upsert_keys (trace w) @ [PStr s]) \<and>
     row_symbol ` set (dest w') \<subseteq> insert (PStr s) (row_symbol ` set (dest w))"
proof (cases "provider e idx s")
  case (ProviderRaises err)
  then show ?thesis by (auto simp add: attempt_raises)
next
  case (ProviderInfo info)
  show ?thesis
  proof (cases "is_connected w")
    case False
    then show ?thesis
      by (auto simp add: attempt_info [OF ProviderInfo] insert_unconnected)
  next
    case True
    show ?thesis
    proof (cases "store e idx")
      case (UpsertError err)
      with True show ?thesis
        by (auto simp add: attempt_info [OF ProviderInfo] insert_fetched)
    next
      case (UpsertDone now)
      with True show ?thesis
        by (simp add: attempt_info [OF ProviderInfo] insert_fetched upsert_rows_symbols)
    qed
  qed
qed

lemma sleep_ok: "0 \<le> delay \<Longrightarrow> sleep delay w = Inr (emit (Sleep delay) w)"
  by (simp add: sleep_def)

lemma sleep_Inr: "sleep delay w = Inr w' \<Longrightarrow> w' = emit (Sleep delay) w"
  by (simp add: sleep_def split: if_splits)

lemma loop_step:
  assumes "attempt e t idx c sc fl w = (Inr (sc', fl'), w1)" and "0 \<le> delay"
  shows "process_loop e delay t idx (c # rest) sc fl w =
           process_loop e delay t (idx + 1) rest sc' fl' (emit (Sleep delay) w1)"
  using assms by (simp add: sleep_ok)

lemma loop_returns:
  "process_loop e delay t idx cs sc fl w = (Inr (sc', fl'), w') \<Longrightarrow>
     sc' + fl' = sc + fl + length cs \<and>
     tickers (trace w') = tickers (trace w) @ map fst cs \<and>
     sleeps (trace w') = sleeps (trace w) @ replicate (length cs) delay \<and>
     connection w' = connection w \<and>
     set (upsert_keys (trace w')) \<subseteq> set (upsert_keys (trace w)) \<union> PStr ` fst ` set cs \<and>
     row_symbol ` set (dest w') \<subseteq> row_symbol ` set (dest w) \<union> PStr ` fst ` set cs"
proof (induction cs arbitrary: idx sc fl w)
  case Nil
  then show ?case by simp
next
  case (Cons c cs)
  obtain s n where c: "c = (s, n)" by (cases c)
  obtain sc1 fl1 w1 where
    a: "attempt e t idx (s, n) sc fl w = (Inr (sc1, fl1), w1)" and
    n1: "(sc1 = sc + 1 \<and> fl1 = fl) \<or> (sc1 = sc \<and> fl1 = fl + 1)" and
    t1: "tickers (trace w1) = tickers (trace w) @ [s]" and
    s1: "sleeps (trace w1) = sleeps (trace w)" and
    c1: "connection w1 = connection w" and
    u1: "upsert_keys (trace w1) = upsert_keys (trace w) \<or>
         upsert_keys (trace w1) = upsert_keys (trace w) @ [PStr s]" and
    d1: "row_symbol ` set (dest w1) \<subseteq> insert (PStr s) (row_symbol ` set (dest w))"
    using attempt_result [of e t idx s n sc fl w] by blast
  from Cons.prems a c obtain w2 where
    sl: "sleep delay w1 = Inr w2" and
    rest: "process_loop e delay t (idx + 1) cs sc1 fl1 w2 = (Inr (sc', fl'), w')"
    by (auto split: sum.splits)
  have w2: "w2 = emit (Sleep delay) w1" using sl by (rule sleep_Inr)
  note ih = Cons.IH [OF rest]
  have "sc' + fl' = sc + fl + length (c # cs)" using ih n1 by auto
  moreover have "tickers (trace w') = tickers (trace w) @ map fst (c # cs)"
    using ih t1 w2 c by simp
  moreover have "sleeps (trace w') = sleeps (trace w) @ replicate (length (c # cs)) delay"
    using ih s1 w2 by (simp add: replicate_append_same)
  moreover have "connection w' = connection w" using ih c1 w2 by simp
  moreover have "set (upsert_keys (trace w')) \<subseteq>
                 set (upsert_keys (trace w)) \<union> PStr ` fst ` set (c # cs)"
    using ih u1 w2 c by auto
  moreover have "row_symbol ` set (dest w') \<subseteq>
                 row_symbol ` set (dest w) \<union> PStr ` fst ` set (c # cs)"
  proof -
    have "row_symbol ` set (dest w') \<subseteq> row_symbol ` set (dest w2) \<union> PStr ` fst ` set cs"
      using ih by simp
    moreover have "dest w2 = dest w1" using w2 by simp
    ultimately show ?thesis using d1 c by auto
  qed
  ultimately show ?case by blast
qed

text \<open>With a delay that \<open>time.sleep\<close> accepts, the loop runs to its end.\<close>

lemma loop_total:
  "0 \<le> delay \<Longrightarrow> \<exists>sc' fl' w'. process_loop e delay t idx cs sc fl w = (Inr (sc', fl'), w')"
proof (induction cs arbitrary: idx sc fl w)
  case Nil
  then show ?case by simp
next
  case (Cons c cs)
  obtain s n where c: "c = (s, n)" by (cases c)
  obtain sc1 fl1 w1 where a: "attempt e t idx c sc fl w = (Inr (sc1, fl1), w1)"
    using attempt_result [of e t idx s n sc fl w] c by blast
  show ?case
    using Cons.IH [OF Cons.prems, of "idx + 1" sc1 fl1 "emit (Sleep delay) w1"]
    unfolding loop_step [OF a Cons.prems] .
qed

section \<open>The whole run\<close>

lemma connect_db_quiet:
  "tickers (trace (snd (connect_db r w))) = tickers (trace w) \<and>
   sleeps (trace (snd (connect_db r w))) = sleeps (trace w) \<and>
   upsert_keys (trace (snd (connect_db r w))) = upsert_keys (trace w) \<and>
   dest (snd (connect_db r w)) = dest w \<and> source (snd (connect_db r w)) = source w"
  by (cases r) (simp_all add: connect_db_def)

lemma create_table_quiet:
  "tickers (trace (snd (create_table r w))) = tickers (trace w) \<and>
   sleeps (trace (snd (create_table r w))) = sleeps (trace w) \<and>
   upsert_keys (trace (snd (create_table r w))) = upsert_keys (trace w) \<and>
   dest (snd (create_table r w)) = dest w \<and> source (snd (create_table r w)) = source w"
  by (cases r) (simp_all add: create_table_def Let_def)

lemma get_company_symbols_quiet:
  "tickers (trace (snd (get_company_symbols r w))) = tickers (trace w) \<and>
   sleeps (trace (snd (get_company_symbols r w))) = sleeps (trace w) \<and>
   upsert_keys (trace (snd (get_company_symbols r w))) = upsert_keys (trace w) \<and>
   dest (snd (get_company_symbols r w)) = dest w"
  by (cases r) (simp_all add: get_company_symbols_def Let_def)

lemma run_listing_quiet:
  "tickers (trace (snd (run_listing e w))) = tickers (trace w) \<and>
   sleeps (trace (snd (run_listing e w))) = sleeps (trace w) \<and>
   upsert_keys (trace (snd (run_listing e w))) = upsert_keys (trace w) \<and>
   dest (snd (run_listing e w)) = dest w"
  by (simp add: run_listing_def get_company_symbols_quiet create_table_quiet connect_db_quiet)

lemma close_connection_quiet:
  "tickers (trace (close_connection w)) = tickers (trace w) \<and>
   sleeps (trace (close_connection w)) = sleeps (trace w) \<and>
   upsert_keys (trace (close_connection w)) = upsert_keys (trace w) \<and>
   dest (close_connection w) = dest w"
  by (simp add: close_connection_def)

lemma run_completed_listing:
  assumes "process_all_companies e delay w = (Completed t sc fl, w')"
  shows "process_companies e delay (fst (run_listing e w)) (snd (run_listing e w)) =
           (Completed t sc fl, w')"
  using assms
  by (simp add: process_all_companies_def run_listing_def split: prod.splits if_splits)

lemma companies_completed:
  assumes "process_companies e delay cs w = (Completed t sc fl, w')"
  shows "t = length cs \<and> sc + fl = t \<and>
         tickers (trace w') = tickers (trace w) @ map fst cs \<and>
         sleeps (trace w') = sleeps (trace w) @ replicate (length cs) delay \<and>
         set (upsert_keys (trace w')) \<subseteq> set (upsert_keys (trace w)) \<union> PStr ` fst ` set cs \<and>
         row_symbol ` set (dest w') \<subseteq> row_symbol ` set (dest w) \<union> PStr ` fst ` set cs"
proof -
  from assms obtain w2 where
    loop: "process_loop e delay (length cs) 1 cs 0 0 (out (StartingMsg (length cs)) w) =
             (Inr (sc, fl), w2)" and
    t: "t = length cs" and
    w': "w' = close_connection
                (out RuleMsg (out (FailedMsg fl) (out (SuccessfulMsg sc)
                  (out (TotalMsg (length cs)) (out CompleteMsg (out RuleMsg w2))))))"
    by (auto simp add: process_companies_def Let_def split: prod.splits sum.splits)
  from loop_returns [OF loop] t w' show ?thesis
    by (simp add: close_connection_quiet)
qed

text \<open>
  What every completed run satisfies; \<open>fst (run_listing e w)\<close> is the list of
  companies the run read.
\<close>

lemma run_completed:
  assumes "process_all_companies e delay w = (Completed t sc fl, w')"
  shows "t = length (fst (run_listing e w)) \<and> sc + fl = t \<and>
         tickers (trace w') = tickers (trace w) @ map fst (fst (run_listing e w)) \<and>
         sleeps (trace w') =
           sleeps (trace w) @ replicate (length (fst (run_listing e w))) delay \<and>
         set (upsert_keys (trace w')) \<subseteq>
           set (upsert_keys (trace w)) \<union> PStr ` fst ` set (fst (run_listing e w)) \<and>
         row_symbol ` set (dest w') \<subseteq>
           row_symbol ` set (dest w) \<union> PStr ` fst ` set (fst (run_listing e w))"
  using companies_completed [OF run_completed_listing [OF assms]]
  by (simp add: run_listing_quiet)

text \<open>
  A run whose connection and table steps succeed, with a delay that \<open>time.sleep\<close>
  accepts, reaches its summary.
\<close>

lemma run_completes:
  assumes "connect_reply e = ConnectAlive" and "create_reply e = None" and "0 \<le> delay"
  shows "\<exists>sc fl w'. process_all_companies e delay w =
           (Completed (length (fst (run_listing e w))) sc fl, w')"
proof -
  obtain cs w3 where l: "run_listing e w = (cs, w3)" by (cases "run_listing e w")
  obtain sc fl w4 where
    "process_loop e delay (length cs) 1 cs 0 0 (out (StartingMsg (length cs)) w3) =
       (Inr (sc, fl), w4)"
    using loop_total [OF assms(3)] by blast
  then have "\<exists>w'. process_companies e delay cs w3 = (Completed (length cs) sc fl, w')"
    by (simp add: process_companies_def Let_def)
  moreover have "process_all_companies e delay w = process_companies e delay cs w3"
    using assms(1,2) l
    by (simp add: process_all_companies_def run_listing_def connect_db_def create_table_def
          is_connected_def Let_def split: prod.splits)
  ultimately show ?thesis using l by auto
qed

section \<open>The upsert\<close>

text \<open>
  C1, as the code has it. Take an upsert that the store executes
  (\<open>insert_company_data\<close> returns \<open>True\<close>). If the table had no row for the symbol,
  it has exactly one afterwards, with the revenue, market cap, industry and sector
  provided and with \<open>created_at\<close> equal to \<open>updated_at\<close>. If it had one row for the
  symbol, it still has exactly one: \<open>created_at\<close> is unchanged, the four data
  columns hold the values provided, and \<open>updated_at\<close> is the time of the statement
  when at least one of the four values differs from the one stored, and is left as it
  was when all four are the values already stored.
\<close>

theorem c1_upsert_amended:
  assumes "insert_company_data (UpsertDone now) data w = (Inr True, w')"
      and "map_of data ''symbol'' = Some key" and "map_of data ''revenue'' = Some revn"
      and "map_of data ''market_cap'' = Some mcap" and "map_of data ''industry'' = Some indu"
      and "map_of data ''sector'' = Some sect"
  shows "(rows_for key (dest w) = [] \<longrightarrow>
            rows_for key (dest w') =
              [\<lparr>row_symbol = key, revenue = revn, market_cap = mcap, industry = indu,
                sector = sect, created_at = now, updated_at = now\<rparr>]) \<and>
         (rows_for key (dest w) = [r] \<longrightarrow>
            (\<exists>r'. rows_for key (dest w') = [r'] \<and> row_symbol r' = key \<and>
                  created_at r' = created_at r \<and>
                  revenue r' = revn \<and> market_cap r' = mcap \<and>
                  industry r' = indu \<and> sector r' = sect \<and>
                  updated_at r' =
                    (if revenue r = revn \<and> market_cap r = mcap \<and>
                        industry r = indu \<and> sector r = sect
                     then updated_at r else now)))"
proof -
  from insert_true [OF assms]
  have d: "dest w' = upsert_rows now key revn mcap indu sect (dest w)" by simp
  have new: "rows_for key (dest w') =
              [\<lparr>row_symbol = key, revenue = revn, market_cap = mcap, industry = indu,
                sector = sect, created_at = now, updated_at = now\<rparr>]"
    if "rows_for key (dest w) = []"
    using upsert_rows_absent [OF that, of now revn mcap indu sect] d
    by (simp add: new_row_def)
  have old: "rows_for key (dest w') = [update_row now revn mcap indu sect r] \<and>
             row_symbol r = key"
    if p: "rows_for key (dest w) = [r]"
  proof -
    from p have "r \<in> set (rows_for key (dest w))" by simp
    then have "row_symbol r = key" unfolding rows_for_def by simp
    with upsert_rows_present [OF p] d show ?thesis by simp
  qed
  show ?thesis
  proof (intro conjI impI)
    assume "rows_for key (dest w) = []"
    then show "rows_for key (dest w') =
              [\<lparr>row_symbol = key, revenue = revn, market_cap = mcap, industry = indu,
                sector = sect, created_at = now, updated_at = now\<rparr>]" by (rule new)
  next
    assume "rows_for key (dest w) = [r]"
    from old [OF this]
    show "\<exists>r'. rows_for key (dest w') = [r'] \<and> row_symbol r' = key \<and>
                  created_at r' = created_at r \<and>
                  revenue r' = revn \<and> market_cap r' = mcap \<and>
                  industry r' = indu \<and> sector r' = sect \<and>
                  updated_at r' =
                    (if revenue r = revn \<and> market_cap r = mcap \<and>
                        industry r = indu \<and> sector r = sect
                     then updated_at r else now)"
      by (auto simp add: update_row_def)
  qed
qed

text \<open>
  A first upsert of \<open>TCS.NS\<close> at time 101 into an empty table, and a later one at
  time 200 that brings a new market cap.
\<close>

theorem c1_upsert_amended_witness:
  "fst (insert_company_data (UpsertDone 101) tcs_data connected_world) = Inr True \<and>
   rows_for (PStr ''TCS.NS'') (dest connected_world) = [] \<and>
   rows_for (PStr ''TCS.NS'')
     (dest (snd (insert_company_data (UpsertDone 101) tcs_data connected_world))) =
     [\<lparr>row_symbol = PStr ''TCS.NS'', revenue = PInt 2400000, market_cap = PInt 14000000,
       industry = PStr ''IT Services'', sector = PStr ''Technology'',
       created_at = 101, updated_at = 101\<rparr>] \<and>
   fst (insert_company_data (UpsertDone 200) tcs_data_later stored_world) = Inr True \<and>
   rows_for (PStr ''TCS.NS'') (dest stored_world) = [tcs_row] \<and>
   rows_for (PStr ''TCS.NS'')
     (dest (snd (insert_company_data (UpsertDone 200) tcs_data_later stored_world))) =
     [\<lparr>row_symbol = PStr ''TCS.NS'', revenue = PInt 2400000, market_cap = PInt 15000000,
       industry = PStr ''IT Services'', sector = PStr ''Technology'',
       created_at = 101, updated_at = 200\<rparr>]"
proof -
  define w1 where "w1 = snd (insert_company_data (UpsertDone 101) tcs_data connected_world)"
  define w2 where "w2 = snd (insert_company_data (UpsertDone 200) tcs_data_later stored_world)"
  have i1: "insert_company_data (UpsertDone 101) tcs_data connected_world = (Inr True, w1)"
    unfolding w1_def by (simp add: method_defs scenario_defs)
  have i2: "insert_company_data (UpsertDone 200) tcs_data_later stored_world = (Inr True, w2)"
    unfolding w2_def by (simp add: method_defs scenario_defs)
  have m1: "map_of tcs_data ''symbol'' = Some (PStr ''TCS.NS'')"
    "map_of tcs_data ''revenue'' = Some (PInt 2400000)"
    "map_of tcs_data ''market_cap'' = Some (PInt 14000000)"
    "map_of tcs_data ''industry'' = Some (PStr ''IT Services'')"
    "map_of tcs_data ''sector'' = Some (PStr ''Technology'')"
    by (simp_all add: tcs_data_def)
  have m2: "map_of tcs_data_later ''symbol'' = Some (PStr ''TCS.NS'')"
    "map_of tcs_data_later ''revenue'' = Some (PInt 2400000)"
    "map_of tcs_data_later ''market_cap'' = Some (PInt 15000000)"
    "map_of tcs_data_later ''industry'' = Some (PStr ''IT Services'')"
    "map_of tcs_data_later ''sector'' = Some (PStr ''Technology'')"
    by (simp_all add: tcs_data_later_def)
  have before1: "rows_for (PStr ''TCS.NS'') (dest connected_world) = []"
    by (simp add: connected_world_def)
  have before2: "rows_for (PStr ''TCS.NS'') (dest stored_world) = [tcs_row]"
    by (simp add: stored_world_def tcs_row_def)
  from c1_upsert_amended [OF i1 m1, THEN conjunct1, rule_format, OF before1]
  have after1: "rows_for (PStr ''TCS.NS'') (dest w1) =
     [\<lparr>row_symbol = PStr ''TCS.NS'', revenue = PInt 2400000, market_cap = PInt 14000000,
       industry = PStr ''IT Services'', sector = PStr ''Technology'',
       created_at = 101, updated_at = 101\<rparr>]" .
  from c1_upsert_amended [OF i2 m2, THEN conjunct2, rule_format, OF before2]
  obtain r' where
    r: "rows_for (PStr ''TCS.NS'') (dest w2) = [r']" and
    f: "row_symbol r' = PStr ''TCS.NS''" "created_at r' = created_at tcs_row"
       "revenue r' = PInt 2400000" "market_cap r' = PInt 15000000"
       "industry r' = PStr ''IT Services''" "sector r' = PStr ''Technology''" and
    u: "updated_at r' =
          (if revenue tcs_row = PInt 2400000 \<and> market_cap tcs_row = PInt 15000000 \<and>
              industry tcs_row = PStr ''IT Services'' \<and> sector tcs_row = PStr ''Technology''
           then updated_at tcs_row else 200)"
    by blast
  have "r' = \<lparr>row_symbol = PStr ''TCS.NS'', revenue = PInt 2400000,
               market_cap = PInt 15000000, industry = PStr ''IT Services'',
               sector = PStr ''Technology'', created_at = 101, updated_at = 200\<rparr>"
    using f u by (cases r') (simp add: tcs_row_def)
  with r have after2: "rows_for (PStr ''TCS.NS'') (dest w2) =
     [\<lparr>row_symbol = PStr ''TCS.NS'', revenue = PInt 2400000, market_cap = PInt 15000000,
       industry = PStr ''IT Services'', sector = PStr ''Technology'',
       created_at = 101, updated_at = 200\<rparr>]"
    by simp
  have "fst (insert_company_data (UpsertDone 101) tcs_data connected_world) = Inr True"
    and "fst (insert_company_data (UpsertDone 200) tcs_data_later stored_world) = Inr True"
    using i1 i2 by simp_all
  with before1 before2 after1 [unfolded w1_def] after2 [unfolded w2_def]
  show ?thesis by blast
qed

text \<open>
  C1, as stated: \<open>updated_at\<close> advances at every upsert of a symbol that is already
  present. The table holds the row that an upsert of \<open>TCS.NS\<close> wrote at time 101; the
  next fetch brings the same four values and the upsert runs at time 200. The store
  executes it, \<open>insert_company_data\<close> returns \<open>True\<close>, and the row is what it was:
  its \<open>updated_at\<close> is still 101.
\<close>

theorem c1_counterexample:
  "fst (insert_company_data (UpsertDone 200) tcs_data stored_world) = Inr True \<and>
   rows_for (PStr ''TCS.NS'') (dest stored_world) = [tcs_row] \<and>
   rows_for (PStr ''TCS.NS'')
     (dest (snd (insert_company_data (UpsertDone 200) tcs_data stored_world))) = [tcs_row] \<and>
   updated_at tcs_row = 101 \<and>
   \<not> updated_at (hd (rows_for (PStr ''TCS.NS'') (dest stored_world)))
       < updated_at (hd (rows_for (PStr ''TCS.NS'')
           (dest (snd (insert_company_data (UpsertDone 200) tcs_data stored_world)))))"
  by (simp add: method_defs scenario_defs)

section \<open>The claims about the run\<close>

text \<open>
  C2. When \<open>process_all_companies\<close> reaches its summary, the numbers it reports
  satisfy \<open>successful + failed = total\<close>, and \<open>total\<close> is the number of pairs that
  \<open>get_company_symbols\<close> returned; every iteration of the loop adds one to exactly
  one of the two counters. (By \<open>run_completes\<close> the summary is reached whenever
  \<open>connect_db\<close> and \<open>create_table\<close> succeed and the delay is not negative.)
\<close>

theorem c2_counters_add_up:
  assumes "process_all_companies e delay w = (Completed t sc fl, w')"
  shows "sc + fl = t \<and> t = length (fst (run_listing e w)) \<and>
         (\<exists>sc1 fl1 w1.
            attempt e t0 idx (symbol, name) sc0 fl0 w0 = (Inr (sc1, fl1), w1) \<and>
            ((sc1 = sc0 + 1 \<and> fl1 = fl0) \<or> (sc1 = sc0 \<and> fl1 = fl0 + 1)))"
proof -
  from run_completed [OF assms] have "sc + fl = t \<and> t = length (fst (run_listing e w))"
    by simp
  moreover from attempt_result [of e t0 idx symbol name sc0 fl0 w0]
  have "\<exists>sc1 fl1 w1.
          attempt e t0 idx (symbol, name) sc0 fl0 w0 = (Inr (sc1, fl1), w1) \<and>
          ((sc1 = sc0 + 1 \<and> fl1 = fl0) \<or> (sc1 = sc0 \<and> fl1 = fl0 + 1))"
    by blast
  ultimately show ?thesis by blast
qed

theorem c2_counters_add_up_witness:
  "process_all_companies demo_env 1 demo_world = (Completed 2 1 1, demo_final) \<and>
   (1::nat) + 1 = 2 \<and>
   length (fst (run_listing demo_env demo_world)) = 2 \<and>
   fst (attempt demo_env 2 1 (''TCS.NS'', ''Tata Consultancy'') 0 0 connected_world) = Inr (1, 0) \<and>
   fst (attempt demo_env 2 2 (''BADSYM.NS'', ''Bad Co'') 1 0 connected_world) = Inr (1, 1)"
proof -
  from c2_counters_add_up [OF demo_run]
  have "length (fst (run_listing demo_env demo_world)) = 2" by simp
  moreover have
    "fst (attempt demo_env 2 1 (''TCS.NS'', ''Tata Consultancy'') 0 0 connected_world) = Inr (1, 0)"
    "fst (attempt demo_env 2 2 (''BADSYM.NS'', ''Bad Co'') 1 0 connected_world) = Inr (1, 1)"
    by (simp_all add: method_defs scenario_defs)
  ultimately show ?thesis using demo_run by simp
qed

text \<open>
  C3. When \<open>fetch_company_data\<close> returns \<open>None\<close> for the symbol of an iteration,
  the iteration sends no upsert (no statement of that kind is added to the trace, and
  the destination table is as it was), adds one to \<open>failed\<close> and nothing to
  \<open>successful\<close>, and after the pause the loop goes on with the next company.
\<close>

theorem c3_fetch_failure_counts_failed:
  assumes "fetch_company_data (provider e idx) symbol
             (out (ProcessingMsg idx t name symbol) w) = (None, w1)"
  shows "attempt e t idx (symbol, name) sc fl w = (Inr (sc, fl + 1), w1) \<and>
         dest w1 = dest w \<and>
         upsert_keys (trace w1) = upsert_keys (trace w) \<and>
         (0 \<le> delay \<longrightarrow>
            process_loop e delay t idx ((symbol, name) # rest) sc fl w =
              process_loop e delay t (idx + 1) rest sc (fl + 1) (emit (Sleep delay) w1))"
proof -
  have a: "attempt e t idx (symbol, name) sc fl w = (Inr (sc, fl + 1), w1)"
    using assms by (simp add: attempt_def)
  have w1: "w1 = snd (fetch_company_data (provider e idx) symbol
                        (out (ProcessingMsg idx t name symbol) w))"
    using assms by simp
  have "dest w1 = dest w" and "upsert_keys (trace w1) = upsert_keys (trace w)"
    unfolding w1 by (simp_all add: fetch_quiet)
  moreover have "0 \<le> delay \<Longrightarrow>
      process_loop e delay t idx ((symbol, name) # rest) sc fl w =
        process_loop e delay t (idx + 1) rest sc (fl + 1) (emit (Sleep delay) w1)"
    by (rule loop_step [OF a])
  ultimately show ?thesis using a by blast
qed

theorem c3_fetch_failure_counts_failed_witness:
  "fetch_company_data (provider demo_env 2) ''BADSYM.NS''
     (out (ProcessingMsg 2 2 ''Bad Co'' ''BADSYM.NS'') connected_world) =
     (None, out (FetchErrorMsg ''BADSYM.NS'' ''HTTP 404'')
              (emit (Ticker ''BADSYM.NS'')
                 (out (ProcessingMsg 2 2 ''Bad Co'' ''BADSYM.NS'') connected_world))) \<and>
   attempt demo_env 2 2 (''BADSYM.NS'', ''Bad Co'') 1 0 connected_world =
     (Inr (1, 1), out (FetchErrorMsg ''BADSYM.NS'' ''HTTP 404'')
                    (emit (Ticker ''BADSYM.NS'')
                       (out (ProcessingMsg 2 2 ''Bad Co'' ''BADSYM.NS'') connected_world))) \<and>
   (0::real) \<le> 1 \<and>
   process_loop demo_env 1 2 2 [(''BADSYM.NS'', ''Bad Co'')] 1 0 connected_world =
     (Inr (1, 1), emit (Sleep 1) (out (FetchErrorMsg ''BADSYM.NS'' ''HTTP 404'')
                    (emit (Ticker ''BADSYM.NS'')
                       (out (ProcessingMsg 2 2 ''Bad Co'' ''BADSYM.NS'') connected_world))))"
proof -
  have p: "provider demo_env 2 ''BADSYM.NS'' = ProviderRaises ''HTTP 404''"
    by (simp add: demo_env_def demo_provider_def)
  have f: "fetch_company_data (provider demo_env 2) ''BADSYM.NS''
     (out (ProcessingMsg 2 2 ''Bad Co'' ''BADSYM.NS'') connected_world) =
     (None, out (FetchErrorMsg ''BADSYM.NS'' ''HTTP 404'')
              (emit (Ticker ''BADSYM.NS'')
                 (out (ProcessingMsg 2 2 ''Bad Co'' ''BADSYM.NS'') connected_world)))"
    using fetch_raises [of "provider demo_env 2" "''BADSYM.NS''" "''HTTP 404''"] p by simp
  from c3_fetch_failure_counts_failed [OF f, of 1 0 1 "[]"] f
  show ?thesis by (simp add: sleep_ok)
qed

text \<open>
  C4. When \<open>connect_db\<close> and \<open>create_table\<close> have succeeded and
  \<open>get_company_symbols\<close> returns the empty list, the run completes and reports
  total 0, successful 0 and failed 0. From the listing on it only prints (the line
  that announces the processing and the six lines of the summary) and closes the
  connection: no upsert is sent during the whole run and the destination table is as
  it was before the run. (The \<open>CREATE TABLE IF NOT EXISTS\<close> of \<open>create_table\<close>
  precedes the listing and writes no row.)
\<close>

theorem c4_empty_list:
  assumes "connect_db (connect_reply e) w = (Some True, w1)"
      and "create_table (create_reply e) w1 = (True, w2)"
      and "get_company_symbols (select_reply e) w2 = ([], w3)"
  shows "\<exists>w'. process_all_companies e delay w = (Completed 0 0 0, w') \<and>
           trace w' = trace w3 @
             [Print (StartingMsg 0), Print RuleMsg, Print CompleteMsg, Print (TotalMsg 0),
              Print (SuccessfulMsg 0), Print (FailedMsg 0), Print RuleMsg,
              Closed, Print ClosedMsg] \<and>
           upsert_keys (trace w') = upsert_keys (trace w) \<and>
           dest w' = dest w \<and>
           connection w' = Dead"
proof -
  have c2: "is_connected w2"
    using assms(2) by (auto simp add: create_table_def Let_def split: if_splits option.splits)
  have c3: "is_connected w3"
    using assms(3) c2
    by (auto simp add: get_company_symbols_def Let_def split: if_splits option.splits)
  have w1: "w1 = snd (connect_db (connect_reply e) w)" using assms(1) by simp
  have w2: "w2 = snd (create_table (create_reply e) w1)" using assms(2) by simp
  have w3: "w3 = snd (get_company_symbols (select_reply e) w2)" using assms(3) by simp
  have d: "dest w3 = dest w"
    unfolding w3 w2 w1
    by (simp add: get_company_symbols_quiet create_table_quiet connect_db_quiet)
  have u: "upsert_keys (trace w3) = upsert_keys (trace w)"
    unfolding w3 w2 w1
    by (simp add: get_company_symbols_quiet create_table_quiet connect_db_quiet)
  have run: "process_all_companies e delay w = process_companies e delay [] w3"
    using assms by (simp add: process_all_companies_def)
  show ?thesis
    unfolding run using c3 d u
    by (simp add: process_companies_def close_connection_def)
qed

theorem c4_empty_list_witness:
  "fst (connect_db (connect_reply demo_env) idle_world) = Some True \<and>
   fst (create_table (create_reply demo_env)
          (snd (connect_db (connect_reply demo_env) idle_world))) = True \<and>
   fst (run_listing demo_env idle_world) = [] \<and>
   fst (process_all_companies demo_env 1 idle_world) = Completed 0 0 0 \<and>
   trace (snd (process_all_companies demo_env 1 idle_world)) =
     [Opened, Print ConnectedMsg, Statement CreateTable, Commit, Print TableCreatedMsg,
      Statement SelectSymbols, Print (FetchedMsg 0),
      Print (StartingMsg 0), Print RuleMsg, Print CompleteMsg, Print (TotalMsg 0),
      Print (SuccessfulMsg 0), Print (FailedMsg 0), Print RuleMsg, Closed, Print ClosedMsg] \<and>
   dest (snd (process_all_companies demo_env 1 idle_world)) = [] \<and>
   connection (snd (process_all_companies demo_env 1 idle_world)) = Dead"
proof -
  define w1 where "w1 = snd (connect_db (connect_reply demo_env) idle_world)"
  define w2 where "w2 = snd (create_table (create_reply demo_env) w1)"
  define w3 where "w3 = snd (get_company_symbols (select_reply demo_env) w2)"
  have a: "connect_db (connect_reply demo_env) idle_world = (Some True, w1)"
    unfolding w1_def by (simp add: method_defs scenario_defs)
  have b: "create_table (create_reply demo_env) w1 = (True, w2)"
    unfolding w2_def w1_def by (simp add: method_defs scenario_defs)
  have c: "get_company_symbols (select_reply demo_env) w2 = ([], w3)"
    unfolding w3_def w2_def w1_def by (simp add: method_defs scenario_defs)
  have t: "trace w3 =
             [Opened, Print ConnectedMsg, Statement CreateTable, Commit, Print TableCreatedMsg,
              Statement SelectSymbols, Print (FetchedMsg 0)]"
    unfolding w3_def w2_def w1_def by (simp add: method_defs scenario_defs)
  have l: "fst (run_listing demo_env idle_world) = []"
    by (simp add: method_defs scenario_defs)
  obtain w' where
    r: "process_all_companies demo_env 1 idle_world = (Completed 0 0 0, w')" and
    tr: "trace w' = trace w3 @
           [Print (StartingMsg 0), Print RuleMsg, Print CompleteMsg, Print (TotalMsg 0),
            Print (SuccessfulMsg 0), Print (FailedMsg 0), Print RuleMsg,
            Closed, Print ClosedMsg]" and
    d: "dest w' = dest idle_world" and
    cn: "connection w' = Dead"
    using c4_empty_list [OF a b c, of 1] by blast
  have i: "dest idle_world = []" by (simp add: idle_world_def)
  show ?thesis using a b l r tr t d cn i by simp
qed

text \<open>
  When \<open>connect_db\<close> or \<open>create_table\<close> fails the run returns at once, without
  listing or processing any company.
\<close>

lemma abort_processes_nothing:
  assumes "fst (connect_db (connect_reply e) w) \<noteq> Some True \<or>
           \<not> fst (create_table (create_reply e) (snd (connect_db (connect_reply e) w)))"
  shows "fst (process_all_companies e delay w) = Aborted \<and>
         tickers (trace (snd (process_all_companies e delay w))) = tickers (trace w) \<and>
         upsert_keys (trace (snd (process_all_companies e delay w))) = upsert_keys (trace w) \<and>
         sleeps (trace (snd (process_all_companies e delay w))) = sleeps (trace w) \<and>
         dest (snd (process_all_companies e delay w)) = dest w"
proof -
  obtain a w1 where c: "connect_db (connect_reply e) w = (a, w1)"
    by (cases "connect_db (connect_reply e) w")
  obtain b w2 where t: "create_table (create_reply e) w1 = (b, w2)"
    by (cases "create_table (create_reply e) w1")
  show ?thesis
  proof (cases "a = Some True")
    case False
    with c have "process_all_companies e delay w = (Aborted, snd (connect_db (connect_reply e) w))"
      by (simp add: process_all_companies_def)
    then show ?thesis by (simp add: connect_db_quiet)
  next
    case True
    with assms c t have "\<not> b" by simp
    with True c t have
      "process_all_companies e delay w =
         (Aborted, snd (create_table (create_reply e) (snd (connect_db (connect_reply e) w))))"
      by (simp add: process_all_companies_def)
    then show ?thesis by (simp add: create_table_quiet connect_db_quiet)
  qed
qed

text \<open>
  The \<open>return\<close> of line 152, taken when \<open>create_table\<close> fails, leaves the method
  without the \<open>close_connection\<close> that line 185 calls at the end of a completed
  run. The connection that \<open>connect_db\<close> opened stays open.
\<close>

lemma create_failure_leaves_connection_open:
  assumes "connect_reply e = ConnectAlive" and "create_reply e = Some err"
  shows "process_all_companies e delay w =
           (Aborted,
            out (CreateErrorMsg err) (emit (Statement CreateTable)
              (out ConnectedMsg (emit Opened (w\<lparr>connection := Alive\<rparr>)))))"
  using assms
  by (simp add: process_all_companies_def connect_db_def create_table_def is_connected_def
        Let_def)

text \<open>
  C5. The claim is that a run which aborts because \<open>connect_db\<close> or
  \<open>create_table\<close> failed processes no company and ends with the connection, once
  opened, closed. At a store that accepts the connection and refuses the
  \<open>CREATE TABLE\<close>, the run processes no company, and it ends with the connection
  opened, alive and never closed: the trace has \<open>Opened\<close> and no \<open>Closed\<close>.
\<close>

theorem c5_aborted_run_leaves_connection_open:
  "process_all_companies denied_env 1 demo_world =
     (Aborted,
      \<lparr>connection = Alive,
       source = [(''TCS.NS'', ''Tata Consultancy''), (''BADSYM.NS'', ''Bad Co'')],
       dest = [],
       trace = [Opened, Print ConnectedMsg, Statement CreateTable,
                Print (CreateErrorMsg ''CREATE command denied'')]\<rparr>)"
  by (simp add: method_defs scenario_defs)

text \<open>
  C7. \<open>fetch_company_data\<close> asks the provider for exactly the symbol it was given:
  the one \<open>Ticker\<close> it opens is for that string, with no suffix and no other change,
  and its result depends on the provider's answer for that string alone. So the
  tickers a completed run asks for are the symbols it read from the source table, in
  their order.
\<close>

theorem c7_symbol_passed_unmodified:
  "tickers (trace (snd (fetch_company_data yf symbol w))) = tickers (trace w) @ [symbol] \<and>
   (\<forall>yf'. yf' symbol = yf symbol \<longrightarrow>
      fetch_company_data yf' symbol w = fetch_company_data yf symbol w) \<and>
   (process_all_companies e delay w0 = (Completed t sc fl, w') \<longrightarrow>
      tickers (trace w') = tickers (trace w0) @ map fst (fst (run_listing e w0)))"
proof -
  have "tickers (trace (snd (fetch_company_data yf symbol w))) = tickers (trace w) @ [symbol]"
    by (cases "yf symbol") (simp_all add: fetch_info fetch_raises)
  moreover have "\<forall>yf'. yf' symbol = yf symbol \<longrightarrow>
      fetch_company_data yf' symbol w = fetch_company_data yf symbol w"
    by (simp add: fetch_company_data_def Let_def)
  moreover have "process_all_companies e delay w0 = (Completed t sc fl, w') \<longrightarrow>
      tickers (trace w') = tickers (trace w0) @ map fst (fst (run_listing e w0))"
    using run_completed [of e delay w0 t sc fl w'] by blast
  ultimately show ?thesis by blast
qed

theorem c7_symbol_passed_unmodified_witness:
  "tickers (trace (snd (fetch_company_data (demo_provider 1) ''TCS.NS'' connected_world))) =
     [''TCS.NS''] \<and>
   fetch_company_data (\<lambda>s. ProviderInfo tcs_info) ''TCS.NS'' connected_world =
     fetch_company_data (demo_provider 1) ''TCS.NS'' connected_world \<and>
   process_all_companies demo_env 1 demo_world = (Completed 2 1 1, demo_final) \<and>
   map fst (fst (run_listing demo_env demo_world)) = [''TCS.NS'', ''BADSYM.NS''] \<and>
   tickers (trace demo_final) = [''TCS.NS'', ''BADSYM.NS'']"
proof -
  have l: "map fst (fst (run_listing demo_env demo_world)) = [''TCS.NS'', ''BADSYM.NS'']"
    by (simp add: method_defs scenario_defs)
  have t0: "trace connected_world = []" "trace demo_world = []"
    by (simp_all add: connected_world_def demo_world_def)
  have same: "(\<lambda>s. ProviderInfo tcs_info) ''TCS.NS'' = demo_provider 1 ''TCS.NS''"
    by (simp add: demo_provider_def)
  note c7 = c7_symbol_passed_unmodified
         [of "demo_provider 1" "''TCS.NS''" connected_world demo_env 1 demo_world 2 1 1 demo_final]
  from c7 [THEN conjunct1] t0 have
    a: "tickers (trace (snd (fetch_company_data (demo_provider 1) ''TCS.NS'' connected_world))) =
          [''TCS.NS'']"
    by simp
  have b: "fetch_company_data (\<lambda>s. ProviderInfo tcs_info) ''TCS.NS'' connected_world =
          fetch_company_data (demo_provider 1) ''TCS.NS'' connected_world"
    using c7 [THEN conjunct2, THEN conjunct1, rule_format, of "\<lambda>s. ProviderInfo tcs_info"] same
    by simp
  from c7 [THEN conjunct2, THEN conjunct2, rule_format, OF demo_run] have
    "tickers (trace demo_final) =
       tickers (trace demo_world) @ map fst (fst (run_listing demo_env demo_world))" .
  with l t0 have c: "tickers (trace demo_final) = [''TCS.NS'', ''BADSYM.NS'']" by simp
  show ?thesis by (intro conjI) (rule a b c l demo_run)+
qed

text \<open>
  C8, as the code has it. The pause follows every iteration, the last one included:
  whatever the attempt of an iteration did, \<open>time.sleep(delay)\<close> comes next (and, the
  delay not being negative, the loop goes on from there), so a completed run over
  \<open>N\<close> companies sleeps \<open>N\<close> times, for \<open>delay\<close> each time.
\<close>

theorem c8_pause_after_every_iteration:
  "(process_all_companies e delay w = (Completed t sc fl, w') \<longrightarrow>
      sleeps (trace w') =
        sleeps (trace w) @ replicate (length (fst (run_listing e w))) delay) \<and>
   (0 \<le> delay \<longrightarrow>
      (\<exists>sc1 fl1 w1.
         attempt e t0 idx company sc0 fl0 w0 = (Inr (sc1, fl1), w1) \<and>
         process_loop e delay t0 idx (company # rest) sc0 fl0 w0 =
           process_loop e delay t0 (idx + 1) rest sc1 fl1 (emit (Sleep delay) w1)))"
proof -
  have "process_all_companies e delay w = (Completed t sc fl, w') \<longrightarrow>
      sleeps (trace w') =
        sleeps (trace w) @ replicate (length (fst (run_listing e w))) delay"
    using run_completed [of e delay w t sc fl w'] by blast
  moreover have "0 \<le> delay \<longrightarrow>
      (\<exists>sc1 fl1 w1.
         attempt e t0 idx company sc0 fl0 w0 = (Inr (sc1, fl1), w1) \<and>
         process_loop e delay t0 idx (company # rest) sc0 fl0 w0 =
           process_loop e delay t0 (idx + 1) rest sc1 fl1 (emit (Sleep delay) w1))"
  proof
    assume d: "0 \<le> delay"
    obtain s n where c: "company = (s, n)" by (cases company)
    obtain sc1 fl1 w1 where a: "attempt e t0 idx company sc0 fl0 w0 = (Inr (sc1, fl1), w1)"
      using attempt_result [of e t0 idx s n sc0 fl0 w0] c by blast
    from a loop_step [OF a d]
    show "\<exists>sc1 fl1 w1.
         attempt e t0 idx company sc0 fl0 w0 = (Inr (sc1, fl1), w1) \<and>
         process_loop e delay t0 idx (company # rest) sc0 fl0 w0 =
           process_loop e delay t0 (idx + 1) rest sc1 fl1 (emit (Sleep delay) w1)"
      by blast
  qed
  ultimately show ?thesis by blast
qed

theorem c8_pause_after_every_iteration_witness:
  "process_all_companies demo_env 1 demo_world = (Completed 2 1 1, demo_final) \<and>
   length (fst (run_listing demo_env demo_world)) = 2 \<and>
   sleeps (trace demo_final) = [1, 1] \<and>
   (0::real) \<le> 1 \<and>
   process_loop demo_env 1 2 2 [(''BADSYM.NS'', ''Bad Co'')] 1 0 connected_world =
     process_loop demo_env 1 2 3 [] 1 1
       (emit (Sleep 1)
          (snd (attempt demo_env 2 2 (''BADSYM.NS'', ''Bad Co'') 1 0 connected_world)))"
proof -
  have l: "length (fst (run_listing demo_env demo_world)) = 2"
    by (simp add: method_defs scenario_defs)
  have t0: "trace demo_world = []" by (simp add: demo_world_def)
  have r: "replicate 2 (1::real) = [1, 1]" by (simp add: numeral_2_eq_2)
  from c8_pause_after_every_iteration
         [of demo_env 1 demo_world 2 1 1 demo_final 2 2 "(''BADSYM.NS'', ''Bad Co'')" 1 0
             connected_world "[]"]
  have s: "sleeps (trace demo_final) = sleeps (trace demo_world) @ replicate 2 1"
    and "\<exists>sc1 fl1 w1.
         attempt demo_env 2 2 (''BADSYM.NS'', ''Bad Co'') 1 0 connected_world =
           (Inr (sc1, fl1), w1) \<and>
         process_loop demo_env 1 2 2 [(''BADSYM.NS'', ''Bad Co'')] 1 0 connected_world =
           process_loop demo_env 1 2 (2 + 1) [] sc1 fl1 (emit (Sleep 1) w1)"
    using demo_run l by simp_all
  then obtain sc1 fl1 w1 where
    a: "attempt demo_env 2 2 (''BADSYM.NS'', ''Bad Co'') 1 0 connected_world =
          (Inr (sc1, fl1), w1)" and
    p: "process_loop demo_env 1 2 2 [(''BADSYM.NS'', ''Bad Co'')] 1 0 connected_world =
          process_loop demo_env 1 2 (2 + 1) [] sc1 fl1 (emit (Sleep 1) w1)"
    by blast
  have "fst (attempt demo_env 2 2 (''BADSYM.NS'', ''Bad Co'') 1 0 connected_world) = Inr (1, 1)"
    by (simp add: method_defs scenario_defs)
  with a have n: "sc1 = 1" "fl1 = 1" by simp_all
  have "process_loop demo_env 1 2 2 [(''BADSYM.NS'', ''Bad Co'')] 1 0 connected_world =
     process_loop demo_env 1 2 3 [] 1 1
       (emit (Sleep 1)
          (snd (attempt demo_env 2 2 (''BADSYM.NS'', ''Bad Co'') 1 0 connected_world)))"
    unfolding p a n by simp
  with s t0 r l demo_run show ?thesis by simp
qed

text \<open>
  C8, as stated. A pause placed between iterations would come \<open>N - 1\<close> times in a
  run over \<open>N\<close> companies. The run over one company sleeps once: after its only
  iteration, with the summary and no further iteration behind the pause.
\<close>

theorem c8_counterexample:
  "fst (process_all_companies demo_env 1 one_company_world) = Completed 1 1 0 \<and>
   length (fst (run_listing demo_env one_company_world)) = 1 \<and>
   trace (snd (process_all_companies demo_env 1 one_company_world)) =
     [Opened, Print ConnectedMsg, Statement CreateTable, Commit, Print TableCreatedMsg,
      Statement SelectSymbols, Print (FetchedMsg 1), Print (StartingMsg 1),
      Print (ProcessingMsg 1 1 ''Tata Consultancy'' ''TCS.NS''), Ticker ''TCS.NS'',
      Statement (Upsert (PStr ''TCS.NS'') (PInt 2400000) (PInt 14000000)
                   (PStr ''IT Services'') (PStr ''Technology'')),
      Commit, Print (InsertedMsg ''TCS.NS''), Sleep 1,
      Print RuleMsg, Print CompleteMsg, Print (TotalMsg 1), Print (SuccessfulMsg 1),
      Print (FailedMsg 0), Print RuleMsg, Closed, Print ClosedMsg] \<and>
   sleeps (trace (snd (process_all_companies demo_env 1 one_company_world))) = [1] \<and>
   \<not> length (sleeps (trace (snd (process_all_companies demo_env 1 one_company_world)))) =
       length (fst (run_listing demo_env one_company_world)) - 1"
  by (simp add: method_defs scenario_defs)

text \<open>
  C10. A dictionary that \<open>fetch_company_data\<close> returns has exactly the keys
  \<open>symbol\<close>, \<open>revenue\<close>, \<open>market_cap\<close>, \<open>industry\<close> and \<open>sector\<close>, and its
  \<open>symbol\<close> is the symbol the method was given. So an iteration sends at most one
  upsert, keyed by the symbol of that iteration, and in a completed run every upsert
  sent and every row that the destination table gained is keyed by a symbol read from
  the source table.
\<close>

theorem c10_fetched_data_keys:
  "(fst (fetch_company_data yf symbol w) = Some data \<longrightarrow>
      map fst data = [''symbol'', ''revenue'', ''market_cap'', ''industry'', ''sector''] \<and>
      map_of data ''symbol'' = Some (PStr symbol)) \<and>
   (upsert_keys (trace (snd (attempt e t0 idx (symbol, name) sc0 fl0 w0))) =
      upsert_keys (trace w0) \<or>
    upsert_keys (trace (snd (attempt e t0 idx (symbol, name) sc0 fl0 w0))) =
      upsert_keys (trace w0) @ [PStr symbol]) \<and>
   (process_all_companies e delay w1 = (Completed t sc fl, w') \<longrightarrow>
      set (upsert_keys (trace w')) \<subseteq>
        set (upsert_keys (trace w1)) \<union> PStr ` fst ` set (fst (run_listing e w1)) \<and>
      row_symbol ` set (dest w') \<subseteq>
        row_symbol ` set (dest w1) \<union> PStr ` fst ` set (fst (run_listing e w1)))"
proof -
  have "fst (fetch_company_data yf symbol w) = Some data \<longrightarrow>
      map fst data = [''symbol'', ''revenue'', ''market_cap'', ''industry'', ''sector''] \<and>
      map_of data ''symbol'' = Some (PStr symbol)"
    by (cases "yf symbol") (auto simp add: fetch_info fetch_raises)
  moreover have
    "upsert_keys (trace (snd (attempt e t0 idx (symbol, name) sc0 fl0 w0))) =
       upsert_keys (trace w0) \<or>
     upsert_keys (trace (snd (attempt e t0 idx (symbol, name) sc0 fl0 w0))) =
       upsert_keys (trace w0) @ [PStr symbol]"
    using attempt_result [of e t0 idx symbol name sc0 fl0 w0] by auto
  moreover have "process_all_companies e delay w1 = (Completed t sc fl, w') \<longrightarrow>
      set (upsert_keys (trace w')) \<subseteq>
        set (upsert_keys (trace w1)) \<union> PStr ` fst ` set (fst (run_listing e w1)) \<and>
      row_symbol ` set (dest w') \<subseteq>
        row_symbol ` set (dest w1) \<union> PStr ` fst ` set (fst (run_listing e w1))"
    using run_completed [of e delay w1 t sc fl w'] by blast
  ultimately show ?thesis by blast
qed

theorem c10_fetched_data_keys_witness:
  "fst (fetch_company_data (demo_provider 1) ''TCS.NS'' connected_world) = Some tcs_data \<and>
   map fst tcs_data = [''symbol'', ''revenue'', ''market_cap'', ''industry'', ''sector''] \<and>
   map_of tcs_data ''symbol'' = Some (PStr ''TCS.NS'') \<and>
   upsert_keys (trace (snd (attempt demo_env 2 1 (''TCS.NS'', ''Tata Consultancy'') 0 0
                              connected_world))) = [PStr ''TCS.NS''] \<and>
   process_all_companies demo_env 1 demo_world = (Completed 2 1 1, demo_final) \<and>
   fst (run_listing demo_env demo_world) =
     [(''TCS.NS'', ''Tata Consultancy''), (''BADSYM.NS'', ''Bad Co'')] \<and>
   upsert_keys (trace demo_final) = [PStr ''TCS.NS''] \<and>
   map row_symbol (dest demo_final) = [PStr ''TCS.NS'']"
proof -
  have f: "fst (fetch_company_data (demo_provider 1) ''TCS.NS'' connected_world) = Some tcs_data"
    by (simp add: method_defs scenario_defs)
  have a: "upsert_keys (trace (snd (attempt demo_env 2 1 (''TCS.NS'', ''Tata Consultancy'') 0 0
                              connected_world))) = [PStr ''TCS.NS'']"
    by (simp add: method_defs scenario_defs)
  have l: "fst (run_listing demo_env demo_world) =
     [(''TCS.NS'', ''Tata Consultancy''), (''BADSYM.NS'', ''Bad Co'')]"
    by (simp add: method_defs scenario_defs)
  have u: "upsert_keys (trace demo_final) = [PStr ''TCS.NS'']"
    "map row_symbol (dest demo_final) = [PStr ''TCS.NS'']"
    by (simp_all add: demo_final_def tcs_row_def)
  from c10_fetched_data_keys [of "demo_provider 1" "''TCS.NS''" connected_world tcs_data]
       f
  have "map fst tcs_data = [''symbol'', ''revenue'', ''market_cap'', ''industry'', ''sector'']"
    and "map_of tcs_data ''symbol'' = Some (PStr ''TCS.NS'')"
    by simp_all
  with f a l u demo_run show ?thesis by simp
qed

end
